theory Spec2Isabelle
  imports Complex_Main
begin

section \<open>Values, objects and the state of one request\<close>

text \<open>
  The program is JavaScript. A value is a primitive, an identifier object or a reference
  to an object of the heap. An identifier object (the data layer's ObjectId) is immutable:
  it is modelled as a value that carries the address of its in-memory representation and
  its canonical hexadecimal text. Two identifier objects are the same object when their
  addresses agree, and the same logical identifier when their texts agree.
\<close>

type_synonym addr = nat

datatype number = NaN | Infinity bool | NegZero | Finite rat

datatype jsval =
    Undefined
  | Null
  | Boolean bool
  | Number number
  | BigInt int
  | Str string
  | Symbol nat
  | ObjectId addr string
  | Ref addr

text \<open>
  An object is the list of its own enumerable properties, in insertion order. A property
  read takes the first binding of a key; a deletion removes every binding of it.
\<close>

type_synonym jsobj = "(string \<times> jsval) list"

text \<open>
  The custom error objects of the source: the class that built the object and the two
  properties the constructors assign. A property read on undefined or null and a call of
  something that is no function raise the engine's TypeError; the data layer's library
  raises errors of its own.
\<close>

datatype error_class =
  OwnershipError | UserValidationError | DocumentNotFoundError | BadParamsError

record error_obj =
  cls :: error_class
  name :: string
  message :: string

datatype js_exn = TypeError | LibraryError | Raised error_obj

text \<open>
  The state one request can touch: the heap of objects, the next free address, and the
  collection of stored posts (the documents of the data layer). With them stands what
  the data layer's library does with an update operator other than the two modelled
  below: for the name of an operator, nothing when the library rejects it, or else the
  post it makes of the operand and the stored post. It is a parameter of the model and
  never changes.
\<close>

record state =
  heap :: "addr \<Rightarrow> jsobj"
  next_addr :: addr
  posts :: "jsobj list"
  operators :: "string \<Rightarrow> (jsobj \<Rightarrow> jsobj \<Rightarrow> jsobj) option"

text \<open>
  A computation takes the state and returns an outcome, a thrown exception (\<open>Inl\<close>)
  or a value (\<open>Inr\<close>), with the state it leaves. \<open>andThen\<close> is sequencing, and the
  \<open>.then\<close> of a promise chain: a thrown exception skips what follows.
\<close>

type_synonym 'a js = "state \<Rightarrow> (js_exn + 'a) \<times> state"

definition return :: "'a \<Rightarrow> 'a js" where
  "return x = (\<lambda>s. (Inr x, s))"

definition throw :: "js_exn \<Rightarrow> 'a js" where
  "throw e = (\<lambda>s. (Inl e, s))"

definition andThen :: "'a js \<Rightarrow> ('a \<Rightarrow> 'b js) \<Rightarrow> 'b js" where
  "andThen m f = (\<lambda>s. case m s of (Inl e, s') \<Rightarrow> (Inl e, s') | (Inr x, s') \<Rightarrow> f x s')"

subsection \<open>The operations of the language\<close>

text \<open>\<open>!v\<close> is the negation of ToBoolean.\<close>

fun ToBoolean :: "jsval \<Rightarrow> bool" where
  "ToBoolean Undefined = False"
| "ToBoolean Null = False"
| "ToBoolean (Boolean b) = b"
| "ToBoolean (Number NaN) = False"
| "ToBoolean (Number NegZero) = False"
| "ToBoolean (Number (Infinity _)) = True"
| "ToBoolean (Number (Finite q)) = (q \<noteq> 0)"
| "ToBoolean (BigInt i) = (i \<noteq> 0)"
| "ToBoolean (Str s) = (s \<noteq> [])"
| "ToBoolean (Symbol _) = True"
| "ToBoolean (ObjectId _ _) = True"
| "ToBoolean (Ref _) = True"

text \<open>\<open>a === b\<close>: objects are compared by reference, primitives by value.\<close>

fun number_equals :: "number \<Rightarrow> number \<Rightarrow> bool" where
  "number_equals NaN _ = False"
| "number_equals _ NaN = False"
| "number_equals NegZero y = (y = NegZero \<or> y = Finite 0)"
| "number_equals x NegZero = (x = Finite 0)"
| "number_equals x y = (x = y)"

fun strict_equals :: "jsval \<Rightarrow> jsval \<Rightarrow> bool" where
  "strict_equals Undefined w = (w = Undefined)"
| "strict_equals Null w = (w = Null)"
| "strict_equals (Boolean b) w = (w = Boolean b)"
| "strict_equals (Number x) w = (case w of Number y \<Rightarrow> number_equals x y | _ \<Rightarrow> False)"
| "strict_equals (BigInt i) w = (w = BigInt i)"
| "strict_equals (Str s) w = (w = Str s)"
| "strict_equals (Symbol n) w = (w = Symbol n)"
| "strict_equals (ObjectId a _) w = (case w of ObjectId b _ \<Rightarrow> a = b | _ \<Rightarrow> False)"
| "strict_equals (Ref a) w = (w = Ref a)"

text \<open>
  The own enumerable properties of a value: those of the object a reference points to;
  for a string its characters, under the decimal indices \<open>0\<close>, \<open>1\<close>, ...; none for
  any other value. An array is the object of its index keys. An identifier object is
  opaque: nothing in this program lists its properties.
\<close>

fun decimal :: "nat \<Rightarrow> string" where
  "decimal n =
     (if n < 10 then [''0123456789'' ! n]
      else decimal (n div 10) @ [''0123456789'' ! (n mod 10)])"

declare decimal.simps [simp del]

definition index_props :: "string \<Rightarrow> jsobj" where
  "index_props t = map (\<lambda>i. (decimal i, Str [t ! i])) [0..<length t]"

definition own_props :: "state \<Rightarrow> jsval \<Rightarrow> jsobj" where
  "own_props s v = (case v of Ref a \<Rightarrow> heap s a | Str t \<Rightarrow> index_props t | _ \<Rightarrow> [])"

text \<open>
  \<open>v.k\<close> and \<open>v[k]\<close>: a read on undefined or null throws; a missing property reads
  as undefined. A string also has its \<open>length\<close>. The properties this program reads
  (\<open>_id\<close>, \<open>owner\<close> and the keys that \<open>Object.keys\<close> lists) are data properties, no
  methods; on a value that has none they read as undefined.
\<close>

definition get_prop :: "jsval \<Rightarrow> string \<Rightarrow> jsval js" where
  "get_prop v k = (\<lambda>s.
     case v of
       Undefined \<Rightarrow> (Inl TypeError, s)
     | Null \<Rightarrow> (Inl TypeError, s)
     | Str t \<Rightarrow>
         (Inr (if k = ''length'' then Number (Finite (of_nat (length t)))
               else case map_of (index_props t) k of Some x \<Rightarrow> x | None \<Rightarrow> Undefined), s)
     | Ref a \<Rightarrow> (Inr (case map_of (heap s a) k of Some x \<Rightarrow> x | None \<Rightarrow> Undefined), s)
     | _ \<Rightarrow> (Inr Undefined, s))"

text \<open>
  \<open>delete v.k\<close> throws on undefined and null. On an object it removes the property in
  place. The characters and the length of a string cannot be deleted: the source files
  are in strict mode, where the attempt throws. On any other value, and for any other
  key of a string, there is nothing to remove. \<open>o.k = v\<close> overwrites the property
  where it stands or appends it. \<open>Object.keys(v)\<close> throws on undefined and null and
  lists the own enumerable keys otherwise, and \<open>forEach\<close> calls its argument on each
  element in turn.
\<close>

definition delete_prop :: "jsval \<Rightarrow> string \<Rightarrow> unit js" where
  "delete_prop v k = (\<lambda>s.
     case v of
       Undefined \<Rightarrow> (Inl TypeError, s)
     | Null \<Rightarrow> (Inl TypeError, s)
     | Str t \<Rightarrow>
         (if k = ''length'' \<or> map_of (index_props t) k \<noteq> None then (Inl TypeError, s)
          else (Inr (), s))
     | Ref a \<Rightarrow>
         (Inr (), s\<lparr>heap := (heap s)(a := filter (\<lambda>p. fst p \<noteq> k) (heap s a))\<rparr>)
     | _ \<Rightarrow> (Inr (), s))"

fun set_prop :: "string \<Rightarrow> jsval \<Rightarrow> jsobj \<Rightarrow> jsobj" where
  "set_prop k v [] = [(k, v)]"
| "set_prop k v (p # ps) = (if fst p = k then (k, v) # ps else p # set_prop k v ps)"

definition Object_keys :: "jsval \<Rightarrow> string list js" where
  "Object_keys v = (\<lambda>s.
     case v of
       Undefined \<Rightarrow> (Inl TypeError, s)
     | Null \<Rightarrow> (Inl TypeError, s)
     | _ \<Rightarrow> (Inr (map fst (own_props s v)), s))"

fun forEach :: "'a list \<Rightarrow> ('a \<Rightarrow> unit js) \<Rightarrow> unit js" where
  "forEach [] f = return ()"
| "forEach (x # xs) f = andThen (f x) (\<lambda>_. forEach xs f)"

text \<open>
  Modelled from the spec: the \<open>equals\<close> method of an identifier object belongs to the
  data layer's library, which is not in the source. The spec calls it identifier-level
  equality, a comparison of the canonical representations and not of the references; a
  value that is no identifier differs from every identifier. A receiver that is no
  identifier object has no such method, and the call throws.
\<close>

definition equals :: "jsval \<Rightarrow> jsval \<Rightarrow> bool js" where
  "equals this otherId =
     (case this of
        ObjectId _ i \<Rightarrow> return (case otherId of ObjectId _ j \<Rightarrow> i = j | _ \<Rightarrow> False)
      | _ \<Rightarrow> throw TypeError)"

section \<open>The custom errors\<close>

text \<open>
  Each constructor calls \<open>super()\<close>, which leaves the name and the message of a plain
  Error, and then assigns \<open>this.name\<close> and \<open>this.message\<close>.
\<close>

definition super :: "error_class \<Rightarrow> error_obj" where
  "super c = \<lparr>cls = c, name = ''Error'', message = ''''\<rparr>"

definition new_OwnershipError :: error_obj where
  "new_OwnershipError =
     (super OwnershipError)
       \<lparr>name := ''OwnershipError'',
        message := ''The provided token does not match the owner of this document''\<rparr>"

definition new_UserValidationError :: error_obj where
  "new_UserValidationError =
     (super UserValidationError)
       \<lparr>name := ''UserValidationError'',
        message := ''The provided token does not match the current user ID''\<rparr>"

definition new_DocumentNotFoundError :: error_obj where
  "new_DocumentNotFoundError =
     (super DocumentNotFoundError)
       \<lparr>name := ''DocumentNotFoundError'',
        message := ''The provided ID doesn't match any documents''\<rparr>"

definition new_BadParamsError :: error_obj where
  "new_BadParamsError =
     (super BadParamsError)
       \<lparr>name := ''BadParamsError'',
        message := ''A required parameter was omitted or invalid''\<rparr>"

section \<open>The guards\<close>

text \<open>
  The request object as the guards and the routes read it: \<open>req.user\<close> (set by the
  token check before the route runs), \<open>req.params.id\<close>, and \<open>req.body.post\<close>: the
  value the body parser built for the \<open>post\<close> member of the JSON body, a reference
  to an object or an array, a string, a number, a boolean or null, and undefined when
  the body has no such member.
\<close>

record request =
  user :: jsval
  params_id :: string
  body_post :: jsval

definition requireOwnership :: "request \<Rightarrow> jsval \<Rightarrow> unit js" where
  "requireOwnership requestObject resource =
     andThen (get_prop (user requestObject) ''_id'') (\<lambda>uid.
     andThen (get_prop resource ''owner'') (\<lambda>owner.
     andThen (equals uid owner) (\<lambda>same.
       if \<not> same then throw (Raised new_OwnershipError) else return ())))"

definition handle404 :: "jsval \<Rightarrow> jsval js" where
  "handle404 record =
     (if \<not> ToBoolean record then throw (Raised new_DocumentNotFoundError)
      else return record)"

definition validateUser :: "request \<Rightarrow> jsval \<Rightarrow> unit js" where
  "validateUser requestObject resource =
     andThen (get_prop (user requestObject) ''_id'') (\<lambda>uid.
     andThen (get_prop resource ''_id'') (\<lambda>rid.
     andThen (equals uid rid) (\<lambda>same.
       if \<not> same then throw (Raised new_UserValidationError) else return ())))"

section \<open>The user schema\<close>

text \<open>
  Both definitions of the user schema give \<open>toObject\<close> the same transform: it is
  called with the document and the plain object built from it, deletes the password hash
  from that object and returns it.
\<close>

definition transform :: "jsval \<Rightarrow> addr \<Rightarrow> jsval js" where
  "transform doc user' =
     andThen (delete_prop (Ref user') ''hashedPassword'') (\<lambda>_. return (Ref user'))"

section \<open>The data layer\<close>

text \<open>
  Modelled from the spec: the data-access collaborator (the post model and the library
  behind it are not in the source) loads the record with a given identifier or yields
  null, and removes a record. A stored post is the list of its fields, \<open>_id\<close> and
  \<open>owner\<close> among them; loading one builds a new object on the heap.
\<close>

definition has_id :: "string \<Rightarrow> jsobj \<Rightarrow> bool" where
  "has_id i d = (case map_of d ''_id'' of Some (ObjectId _ j) \<Rightarrow> j = i | _ \<Rightarrow> False)"

definition alloc :: "jsobj \<Rightarrow> jsval js" where
  "alloc obj =
     (\<lambda>s. (Inr (Ref (next_addr s)),
        s\<lparr>heap := (heap s)(next_addr s := obj), next_addr := Suc (next_addr s)\<rparr>))"

definition findById :: "string \<Rightarrow> jsval js" where
  "findById i =
     (\<lambda>s. case find (has_id i) (posts s) of
            None \<Rightarrow> (Inr Null, s)
          | Some d \<Rightarrow> alloc d s)"

fun remove_first :: "('a \<Rightarrow> bool) \<Rightarrow> 'a list \<Rightarrow> 'a list" where
  "remove_first P [] = []"
| "remove_first P (x # xs) = (if P x then xs else x # remove_first P xs)"

definition remove :: "jsval \<Rightarrow> unit js" where
  "remove post =
     andThen (get_prop post ''_id'') (\<lambda>i.
       case i of
         ObjectId _ j \<Rightarrow> (\<lambda>s. (Inr (), s\<lparr>posts := remove_first (has_id j) (posts s)\<rparr>))
       | _ \<Rightarrow> return ())"

text \<open>
  How an update is applied is said neither in the source nor in the spec: the route
  calls the update method of the data layer's library. It is modelled as that library
  documents it. A top-level key of the update object that starts with \<open>$\<close> is an update
  operator, and its value, an object, names the fields it works on: \<open>$set\<close> writes
  each field with the value bound to it, \<open>$unset\<close> removes each field, and any other
  operator does what the parameter \<open>operators\<close> says. Every other top-level key is a
  field to write with the value bound to it. The keys are applied in their order. An
  update with an operator whose value is no object, or with an operator the library
  rejects, is answered with the library's error, and nothing is written. A field is
  written under its key as a whole and with the value as it was sent: paths inside a
  key, and the casts and checks of the post schema, which is not in the source, are not
  modelled. The call yields the post as updated (the option \<open>new: true\<close> of the
  source), or null when no post has the identifier.
\<close>

definition is_operator :: "string \<Rightarrow> bool" where
  "is_operator k = (case k of [] \<Rightarrow> False | c # _ \<Rightarrow> c = CHR ''$'')"

definition write_fields :: "jsobj \<Rightarrow> jsobj \<Rightarrow> jsobj" where
  "write_fields ps d =
     fold (\<lambda>k d'. case map_of ps k of Some v \<Rightarrow> set_prop k v d' | None \<Rightarrow> d') (map fst ps) d"

definition unset_fields :: "jsobj \<Rightarrow> jsobj \<Rightarrow> jsobj" where
  "unset_fields ps d = fold (\<lambda>k d'. filter (\<lambda>p. fst p \<noteq> k) d') (map fst ps) d"

definition rejected :: "state \<Rightarrow> jsobj \<Rightarrow> bool" where
  "rejected s upd =
     list_ex
       (\<lambda>k. is_operator k \<and>
          (case map_of upd k of
             Some (Ref b) \<Rightarrow> k \<noteq> ''$set'' \<and> k \<noteq> ''$unset'' \<and> operators s k = None
           | _ \<Rightarrow> True))
       (map fst upd)"

definition apply_key :: "state \<Rightarrow> string \<Rightarrow> jsval \<Rightarrow> jsobj \<Rightarrow> jsobj" where
  "apply_key s k v d =
     (if \<not> is_operator k then set_prop k v d
      else case v of
             Ref b \<Rightarrow>
               (if k = ''$set'' then write_fields (heap s b) d
                else if k = ''$unset'' then unset_fields (heap s b) d
                else case operators s k of Some f \<Rightarrow> f (heap s b) d | None \<Rightarrow> d)
           | _ \<Rightarrow> d)"

definition assign :: "state \<Rightarrow> jsobj \<Rightarrow> jsobj \<Rightarrow> jsobj" where
  "assign s d upd =
     fold (\<lambda>k d'. case map_of upd k of Some v \<Rightarrow> apply_key s k v d' | None \<Rightarrow> d')
       (map fst upd) d"

fun update_first :: "('a \<Rightarrow> bool) \<Rightarrow> 'a \<Rightarrow> 'a list \<Rightarrow> 'a list" where
  "update_first P y [] = []"
| "update_first P y (x # xs) = (if P x then y # xs else x # update_first P y xs)"

definition findByIdAndUpdate :: "string \<Rightarrow> jsval \<Rightarrow> jsval js" where
  "findByIdAndUpdate i upd =
     (\<lambda>s. if rejected s (own_props s upd) then (Inl LibraryError, s)
          else case find (has_id i) (posts s) of
                 None \<Rightarrow> (Inr Null, s)
               | Some d \<Rightarrow>
                   (let d' = assign s d (own_props s upd)
                    in alloc d' (s\<lparr>posts := update_first (has_id i) d' (posts s)\<rparr>)))"

section \<open>The routes that change a post\<close>

text \<open>
  What a route does with the response: a JSON body with a status, a bare status, or the
  error handed to the error handler (the \<open>.catch\<close> that ends each promise chain). An
  exception thrown before the chain starts is caught by nothing in the route.
\<close>

datatype response = Json nat jsval | SendStatus nat | Handle js_exn | Uncaught js_exn

definition catch :: "response js \<Rightarrow> state \<Rightarrow> response \<times> state" where
  "catch m = (\<lambda>s. case m s of (Inl err, s') \<Rightarrow> (Handle err, s') | (Inr r, s') \<Rightarrow> (r, s'))"

text \<open>The two statements that open the PATCH route, on the value \<open>req.body.post\<close>.\<close>

definition delete_empty :: "jsval \<Rightarrow> string \<Rightarrow> unit js" where
  "delete_empty post key =
     andThen (get_prop post key) (\<lambda>v.
       if strict_equals v (Str []) then delete_prop post key else return ())"

definition strip_body :: "jsval \<Rightarrow> unit js" where
  "strip_body post =
     andThen (delete_prop post ''owner'') (\<lambda>_.
     andThen (Object_keys post) (\<lambda>keys.
       forEach keys (delete_empty post)))"

text \<open>
  PATCH \<open>/posts/:id\<close>: the two opening statements run first, outside the promise
  chain; the chain is \<open>findByIdAndUpdate\<close>, \<open>handle404\<close>, then \<open>requireOwnership\<close>
  and the answer with status 200 and the post, and its \<open>.catch\<close>.
\<close>

definition patch_post :: "request \<Rightarrow> state \<Rightarrow> response \<times> state" where
  "patch_post req =
     (\<lambda>s. case strip_body (body_post req) s of
            (Inl err, s') \<Rightarrow> (Uncaught err, s')
          | (Inr _, s') \<Rightarrow>
              catch
                (andThen
                   (andThen (findByIdAndUpdate (params_id req) (body_post req)) handle404)
                   (\<lambda>post'.
                      andThen (requireOwnership req post') (\<lambda>_.
                        return (Json 200 post'))))
                s')"

text \<open>
  DELETE \<open>/posts/:id\<close>: the chain is \<open>findById\<close>, \<open>handle404\<close>, then
  \<open>requireOwnership\<close> and \<open>post.remove()\<close>, then the status 204, and its
  \<open>.catch\<close>.
\<close>

definition delete_post :: "request \<Rightarrow> state \<Rightarrow> response \<times> state" where
  "delete_post req =
     catch
       (andThen
          (andThen (andThen (findById (params_id req)) handle404)
             (\<lambda>post. andThen (requireOwnership req post) (\<lambda>_. remove post)))
          (\<lambda>_. return (SendStatus 204)))"

section \<open>A scenario\<close>

text \<open>
  Two users and one stored post that belongs to the first of them. The heap holds the two
  user documents, a request body that names a new owner, a new title and an empty text,
  and a loaded copy of the post.
\<close>

definition ann :: jsobj where
  "ann = [(''_id'', ObjectId 100 ''u1''), (''nickname'', Str ''ann'')]"

definition bob :: jsobj where
  "bob = [(''_id'', ObjectId 200 ''u2''), (''nickname'', Str ''bob'')]"

definition first_post :: jsobj where
  "first_post =
     [(''_id'', ObjectId 300 ''p1''), (''owner'', ObjectId 301 ''u1''),
      (''title'', Str ''first''), (''text'', Str [])]"

definition body :: jsobj where
  "body = [(''owner'', Str ''u2''), (''title'', Str ''taken''), (''text'', Str [])]"

definition s0 :: state where
  "s0 = \<lparr>heap = (\<lambda>_. [])(1 := ann, 2 := bob, 3 := body, 4 := first_post),
          next_addr = 5, posts = [first_post], operators = (\<lambda>_. None)\<rparr>"

definition as_ann :: request where
  "as_ann = \<lparr>user = Ref 1, params_id = ''p1'', body_post = Ref 3\<rparr>"

definition as_bob :: request where
  "as_bob = \<lparr>user = Ref 2, params_id = ''p1'', body_post = Ref 3\<rparr>"

text \<open>
  Two more requests: one of the second user, whose body has no \<open>post\<close> member, and
  one of the first user, whose \<open>post\<close> member holds an update operator with a new
  owner and an empty title as its operand.
\<close>

definition operand :: jsobj where
  "operand = [(''owner'', Str ''u2''), (''title'', Str [])]"

definition operator_body :: jsobj where
  "operator_body = [(''$set'', Ref 6)]"

definition s1 :: state where
  "s1 = s0\<lparr>heap := (heap s0)(5 := operator_body, 6 := operand), next_addr := 7\<rparr>"

definition without_post :: request where
  "without_post = \<lparr>user = Ref 2, params_id = ''p1'', body_post = Undefined\<rparr>"

definition with_operator :: request where
  "with_operator = \<lparr>user = Ref 1, params_id = ''p1'', body_post = Ref 5\<rparr>"

section \<open>The guards leave the state alone\<close>

lemma get_prop_state: "snd (get_prop v k s) = s"
  by (simp add: get_prop_def split: jsval.splits)

lemma equals_state: "snd (equals a b s) = s"
  by (simp add: equals_def return_def throw_def split: jsval.splits)

lemma return_state: "snd (return x s) = s"
  by (simp add: return_def)

lemma requireOwnership_state: "snd (requireOwnership req r s) = s"
  by (auto simp: requireOwnership_def andThen_def get_prop_def equals_def return_def throw_def
      split: jsval.splits prod.splits sum.splits)

lemma validateUser_state: "snd (validateUser req r s) = s"
  by (auto simp: validateUser_def andThen_def get_prop_def equals_def return_def throw_def
      split: jsval.splits prod.splits sum.splits)

lemma handle404_state: "snd (handle404 v s) = s"
  by (simp add: handle404_def return_def throw_def)

lemma andThen_state:
  assumes "\<And>x t. snd (f x t) = t"
  shows "snd (andThen m f s) = snd (m s)"
  using assms by (simp add: andThen_def split: prod.splits sum.splits)

lemma catch_state: "snd (catch m s) = snd (m s)"
  by (simp add: catch_def split: prod.splits sum.splits)

text \<open>
  C7: each guard returns the state it was given, so it changes neither the objects it was
  passed nor anything else; and a second invocation on the same arguments, run after the
  first, has the outcome of the first.
\<close>

theorem guards_pure:
  "snd (requireOwnership req r s) = s \<and>
   snd (validateUser req r s) = s \<and>
   snd (handle404 v s) = s \<and>
   fst (requireOwnership req r (snd (requireOwnership req r s))) =
     fst (requireOwnership req r s) \<and>
   fst (validateUser req r (snd (validateUser req r s))) = fst (validateUser req r s) \<and>
   fst (handle404 v (snd (handle404 v s))) = fst (handle404 v s)"
  by (simp add: requireOwnership_state validateUser_state handle404_state)

section \<open>What the guards decide\<close>

text \<open>
  C1: when the identifier of the requesting user and the owner of the resource are
  identifiers, \<open>requireOwnership\<close> returns normally and leaves the state as it was if
  their texts agree, and otherwise throws an OwnershipError with the fixed message.
\<close>

theorem requireOwnership_outcome:
  assumes "fst (get_prop (user req) ''_id'' s) = Inr (ObjectId a i)"
    and "fst (get_prop resource ''owner'' s) = Inr (ObjectId b j)"
  shows "requireOwnership req resource s =
           (if i = j then (Inr (), s) else (Inl (Raised new_OwnershipError), s)) \<and>
         cls new_OwnershipError = OwnershipError \<and>
         message new_OwnershipError =
           ''The provided token does not match the owner of this document''"
  using assms
  by (auto simp: requireOwnership_def andThen_def get_prop_def equals_def return_def throw_def
        new_OwnershipError_def super_def
      split: jsval.splits prod.splits sum.splits)

theorem requireOwnership_outcome_witness:
  "requireOwnership as_ann (Ref 4) s0 = (Inr (), s0) \<and>
   requireOwnership as_bob (Ref 4) s0 = (Inl (Raised new_OwnershipError), s0)"
proof -
  have a: "fst (get_prop (user as_ann) ''_id'' s0) = Inr (ObjectId 100 ''u1'')"
    by (simp add: get_prop_def as_ann_def s0_def ann_def)
  have b: "fst (get_prop (user as_bob) ''_id'' s0) = Inr (ObjectId 200 ''u2'')"
    by (simp add: get_prop_def as_bob_def s0_def bob_def)
  have p: "fst (get_prop (Ref 4) ''owner'' s0) = Inr (ObjectId 301 ''u1'')"
    by (simp add: get_prop_def s0_def first_post_def)
  show ?thesis
    using requireOwnership_outcome [OF a p] requireOwnership_outcome [OF b p] by simp
qed

text \<open>
  C3: \<open>validateUser\<close> compares the identifier of the requesting user with the
  resource's own \<open>_id\<close>, not with its owner: it returns normally if the texts agree and
  otherwise throws a UserValidationError.
\<close>

theorem validateUser_outcome:
  assumes "fst (get_prop (user req) ''_id'' s) = Inr (ObjectId a i)"
    and "fst (get_prop resource ''_id'' s) = Inr (ObjectId b j)"
  shows "validateUser req resource s =
           (if i = j then (Inr (), s) else (Inl (Raised new_UserValidationError), s)) \<and>
         cls new_UserValidationError = UserValidationError"
  using assms
  by (auto simp: validateUser_def andThen_def get_prop_def equals_def return_def throw_def
        new_UserValidationError_def super_def
      split: jsval.splits prod.splits sum.splits)

theorem validateUser_outcome_witness:
  "validateUser as_ann (Ref 1) s0 = (Inr (), s0) \<and>
   validateUser as_bob (Ref 1) s0 = (Inl (Raised new_UserValidationError), s0) \<and>
   validateUser as_ann (Ref 4) s0 = (Inl (Raised new_UserValidationError), s0)"
proof -
  have a: "fst (get_prop (user as_ann) ''_id'' s0) = Inr (ObjectId 100 ''u1'')"
    by (simp add: get_prop_def as_ann_def s0_def ann_def)
  have b: "fst (get_prop (user as_bob) ''_id'' s0) = Inr (ObjectId 200 ''u2'')"
    by (simp add: get_prop_def as_bob_def s0_def bob_def)
  have r: "fst (get_prop (Ref 1) ''_id'' s0) = Inr (ObjectId 100 ''u1'')"
    by (simp add: get_prop_def s0_def ann_def)
  have p: "fst (get_prop (Ref 4) ''_id'' s0) = Inr (ObjectId 300 ''p1'')"
    by (simp add: get_prop_def s0_def first_post_def)
  show ?thesis
    using validateUser_outcome [OF a r] validateUser_outcome [OF b r]
      validateUser_outcome [OF a p]
    by simp
qed

text \<open>
  C5: the comparison is by the text of the identifiers. Two identifier objects at
  different addresses are not the same object for \<open>===\<close>, and \<open>requireOwnership\<close>
  still returns normally when they carry the same text.
\<close>

theorem requireOwnership_not_by_reference:
  assumes "fst (get_prop (user req) ''_id'' s) = Inr (ObjectId a i)"
    and "fst (get_prop resource ''owner'' s) = Inr (ObjectId b i)"
    and "a \<noteq> b"
  shows "\<not> strict_equals (ObjectId a i) (ObjectId b i) \<and>
         requireOwnership req resource s = (Inr (), s)"
  using assms
  by (auto simp: requireOwnership_def andThen_def get_prop_def equals_def return_def throw_def
      split: jsval.splits prod.splits sum.splits)

theorem requireOwnership_not_by_reference_witness:
  "\<not> strict_equals (ObjectId 100 ''u1'') (ObjectId 301 ''u1'') \<and>
   requireOwnership as_ann (Ref 4) s0 = (Inr (), s0)"
proof -
  have a: "fst (get_prop (user as_ann) ''_id'' s0) = Inr (ObjectId 100 ''u1'')"
    by (simp add: get_prop_def as_ann_def s0_def ann_def)
  have p: "fst (get_prop (Ref 4) ''owner'' s0) = Inr (ObjectId 301 ''u1'')"
    by (simp add: get_prop_def s0_def first_post_def)
  have n: "(100::nat) \<noteq> 301"
    by simp
  show ?thesis
    by (rule requireOwnership_not_by_reference [OF a p n])
qed

text \<open>
  C4: \<open>handle404\<close> throws a DocumentNotFoundError on null and on undefined, and on a
  record, which is a reference to an object, it returns that same reference and leaves
  the heap, and so the object, as it was.
\<close>

theorem handle404_absent_or_present:
  "handle404 Null s = (Inl (Raised new_DocumentNotFoundError), s) \<and>
   handle404 Undefined s = (Inl (Raised new_DocumentNotFoundError), s) \<and>
   cls new_DocumentNotFoundError = DocumentNotFoundError \<and>
   handle404 (Ref a) s = (Inr (Ref a), s)"
  by (simp add: handle404_def throw_def return_def new_DocumentNotFoundError_def super_def)

text \<open>
  C8: \<open>handle404\<close> returns its argument exactly when the argument is truthy and throws
  a DocumentNotFoundError otherwise; the falsy values are undefined, null, false, NaN,
  the two zeros, the zero BigInt and the empty string.
\<close>

theorem handle404_falsy:
  "handle404 v s =
     (if ToBoolean v then (Inr v, s) else (Inl (Raised new_DocumentNotFoundError), s)) \<and>
   (\<not> ToBoolean v) =
     (v \<in> {Undefined, Null, Boolean False, Number NaN, Number NegZero, Number (Finite 0),
            BigInt 0, Str []})"
proof
  show "handle404 v s =
     (if ToBoolean v then (Inr v, s) else (Inl (Raised new_DocumentNotFoundError), s))"
    by (simp add: handle404_def throw_def return_def)
next
  show "(\<not> ToBoolean v) =
     (v \<in> {Undefined, Null, Boolean False, Number NaN, Number NegZero, Number (Finite 0),
            BigInt 0, Str []})"
  proof (cases v)
    case (Number x)
    then show ?thesis by (cases x) auto
  qed auto
qed

text \<open>
  C6: the name and the message of each of the four custom errors, and the only outcomes
  of the three guards: a normal return, the engine's TypeError, or the custom error of
  that guard as its constructor builds it.
\<close>

theorem domain_error_pairs:
  "name new_OwnershipError = ''OwnershipError'' \<and>
   message new_OwnershipError =
     ''The provided token does not match the owner of this document'' \<and>
   name new_UserValidationError = ''UserValidationError'' \<and>
   message new_UserValidationError =
     ''The provided token does not match the current user ID'' \<and>
   name new_DocumentNotFoundError = ''DocumentNotFoundError'' \<and>
   message new_DocumentNotFoundError = ''The provided ID doesn't match any documents'' \<and>
   name new_BadParamsError = ''BadParamsError'' \<and>
   message new_BadParamsError = ''A required parameter was omitted or invalid'' \<and>
   fst (requireOwnership req r s) \<in>
     {Inr (), Inl TypeError, Inl (Raised new_OwnershipError)} \<and>
   fst (validateUser req r s) \<in>
     {Inr (), Inl TypeError, Inl (Raised new_UserValidationError)} \<and>
   fst (handle404 v s) \<in> {Inr v, Inl (Raised new_DocumentNotFoundError)}"
proof -
  have "fst (requireOwnership req r s) \<in>
      {Inr (), Inl TypeError, Inl (Raised new_OwnershipError)}"
    by (auto simp: requireOwnership_def andThen_def get_prop_def equals_def return_def
          throw_def
        split: jsval.splits prod.splits sum.splits)
  moreover have "fst (validateUser req r s) \<in>
      {Inr (), Inl TypeError, Inl (Raised new_UserValidationError)}"
    by (auto simp: validateUser_def andThen_def get_prop_def equals_def return_def throw_def
        split: jsval.splits prod.splits sum.splits)
  moreover have "fst (handle404 v s) \<in> {Inr v, Inl (Raised new_DocumentNotFoundError)}"
    by (simp add: handle404_def return_def throw_def)
  ultimately show ?thesis
    by (simp add: new_OwnershipError_def new_UserValidationError_def
        new_DocumentNotFoundError_def new_BadParamsError_def super_def)
qed

section \<open>The password hash leaves the serialized user\<close>

lemma filter_key_map_of:
  "map_of (filter (\<lambda>p. fst p \<noteq> k) ps) k' = (if k' = k then None else map_of ps k')"
  by (induction ps) auto

lemma filter_key_set_prop:
  "filter (\<lambda>p. fst p \<noteq> k) (set_prop k v ps) = filter (\<lambda>p. fst p \<noteq> k) ps"
  by (induction ps) auto

text \<open>
  C10: the transform returns the object it was given; afterwards that object has no
  \<open>hashedPassword\<close> property and every other property reads as before, in the same
  order; and two objects that differ only in the value of \<open>hashedPassword\<close> give the
  same result and the same state.
\<close>

theorem transform_drops_hash:
  "fst (transform d u s) = Inr (Ref u) \<and>
   heap (snd (transform d u s)) u = filter (\<lambda>p. fst p \<noteq> ''hashedPassword'') (heap s u) \<and>
   map_of (heap (snd (transform d u s)) u) k =
     (if k = ''hashedPassword'' then None else map_of (heap s u) k) \<and>
   transform d u (s\<lparr>heap := (heap s)(u := set_prop ''hashedPassword'' h1 (heap s u))\<rparr>) =
   transform d u (s\<lparr>heap := (heap s)(u := set_prop ''hashedPassword'' h2 (heap s u))\<rparr>)"
  by (simp add: transform_def andThen_def delete_prop_def return_def filter_key_map_of
      filter_key_set_prop)

section \<open>The PATCH route\<close>

lemma strict_equals_Str: "strict_equals v (Str t) = (v = Str t)"
  by (cases v) auto

lemma map_of_Some_key: "map_of ps k = Some v \<Longrightarrow> k \<in> set (map fst ps)"
  by (induction ps) (auto split: if_splits)

lemma map_of_key_Some: "k \<in> set (map fst ps) \<Longrightarrow> \<exists>v. map_of ps k = Some v"
  by (induction ps) auto

text \<open>The index keys of a string are digits, and the values under them single characters.\<close>

lemma decimal_last: "decimal n \<noteq> [] \<and> last (decimal n) \<in> set ''0123456789''"
proof (cases "n < 10")
  case True
  then have "''0123456789'' ! n \<in> set ''0123456789''"
    by (intro nth_mem) simp
  with True show ?thesis
    by (subst (1 2) decimal.simps) simp
next
  case False
  have "''0123456789'' ! (n mod 10) \<in> set ''0123456789''"
    by (intro nth_mem) simp
  with False show ?thesis
    by (subst (1 2) decimal.simps) simp
qed

lemma decimal_not_owner: "decimal n \<noteq> ''owner''"
  using decimal_last [of n] by auto

lemma index_props_owner: "map_of (index_props t) ''owner'' = None"
  using decimal_not_owner by (auto simp: index_props_def map_of_eq_None_iff) metis

lemma index_props_value: "map_of (index_props t) k \<noteq> Some (Str [])"
proof
  assume "map_of (index_props t) k = Some (Str [])"
  then have "(k, Str []) \<in> set (index_props t)"
    by (rule map_of_SomeD)
  then show False
    by (auto simp: index_props_def)
qed

text \<open>A loop whose body does nothing does nothing.\<close>

lemma forEach_skip:
  assumes "\<And>k t. f k t = (Inr (), t)"
  shows "forEach ks f s = (Inr (), s)"
  by (induction ks) (simp_all add: return_def andThen_def assms)

lemma delete_empty_Str: "delete_empty (Str t) k s = (Inr (), s)"
  by (simp add: delete_empty_def andThen_def get_prop_def strict_equals_Str return_def
      index_props_value split: option.splits)

lemma strip_body_Str: "strip_body (Str t) s = (Inr (), s)"
  by (simp add: strip_body_def andThen_def delete_prop_def index_props_owner Object_keys_def
      forEach_skip delete_empty_Str)

lemma strip_body_other:
  assumes "v \<noteq> Undefined" "v \<noteq> Null" "\<forall>a. v \<noteq> Ref a"
  shows "strip_body v s = (Inr (), s)"
proof (cases v)
  case (Str t)
  then show ?thesis by (simp add: strip_body_Str)
qed (use assms in \<open>simp_all add: strip_body_def andThen_def delete_prop_def Object_keys_def
      own_props_def return_def\<close>)

lemma strip_body_nullish:
  "strip_body Undefined s = (Inl TypeError, s)" "strip_body Null s = (Inl TypeError, s)"
  by (simp_all add: strip_body_def andThen_def delete_prop_def)

lemma delete_empty_Ref:
  "delete_empty (Ref a) k s =
     (Inr (), s\<lparr>heap := (heap s)(a :=
        (if map_of (heap s a) k = Some (Str []) then filter (\<lambda>p. fst p \<noteq> k) (heap s a)
         else heap s a))\<rparr>)"
  by (auto simp: delete_empty_def andThen_def get_prop_def strict_equals_Str delete_prop_def
        return_def
      split: option.splits)

text \<open>The loop of the route, as a fold over the keys on the object it works on.\<close>

lemma forEach_delete_empty:
  "forEach ks (delete_empty (Ref a)) s =
     (Inr (), s\<lparr>heap := (heap s)(a :=
        fold (\<lambda>k ps. if map_of ps k = Some (Str []) then filter (\<lambda>p. fst p \<noteq> k) ps else ps)
          ks (heap s a))\<rparr>)"
proof (induction ks arbitrary: s)
  case Nil
  show ?case by (simp add: return_def)
next
  case (Cons k ks)
  obtain s1 where s1: "delete_empty (Ref a) k s = (Inr (), s1)"
    and h1: "s1 = s\<lparr>heap := (heap s)(a :=
        (if map_of (heap s a) k = Some (Str []) then filter (\<lambda>p. fst p \<noteq> k) (heap s a)
         else heap s a))\<rparr>"
    by (simp add: delete_empty_Ref)
  have "forEach (k # ks) (delete_empty (Ref a)) s = forEach ks (delete_empty (Ref a)) s1"
    using s1 by (simp add: andThen_def)
  also have "\<dots> = (Inr (), s1\<lparr>heap := (heap s1)(a :=
        fold (\<lambda>k ps. if map_of ps k = Some (Str []) then filter (\<lambda>p. fst p \<noteq> k) ps else ps)
          ks (heap s1 a))\<rparr>)"
    by (rule Cons.IH)
  also have "\<dots> = (Inr (), s\<lparr>heap := (heap s)(a :=
        fold (\<lambda>k ps. if map_of ps k = Some (Str []) then filter (\<lambda>p. fst p \<noteq> k) ps else ps)
          (k # ks) (heap s a))\<rparr>)"
    by (simp add: h1)
  finally show ?case .
qed

lemma fold_strip_map_of:
  "map_of (fold (\<lambda>k ps. if map_of ps k = Some (Str []) then filter (\<lambda>p. fst p \<noteq> k) ps else ps)
             ks ps) k' =
     (if k' \<in> set ks \<and> map_of ps k' = Some (Str []) then None else map_of ps k')"
  by (induction ks arbitrary: ps) (auto simp: filter_key_map_of)

lemma strip_body_Ref:
  "strip_body (Ref a) s =
     (Inr (), s\<lparr>heap := (heap s)(a :=
        fold (\<lambda>k ps. if map_of ps k = Some (Str []) then filter (\<lambda>p. fst p \<noteq> k) ps else ps)
          (map fst (filter (\<lambda>p. fst p \<noteq> ''owner'') (heap s a)))
          (filter (\<lambda>p. fst p \<noteq> ''owner'') (heap s a)))\<rparr>)"
  by (simp add: strip_body_def andThen_def delete_prop_def Object_keys_def own_props_def
      forEach_delete_empty)

lemma strip_body_Ref_map_of:
  "map_of (heap (snd (strip_body (Ref a) s)) a) k =
     (if k = ''owner'' \<or> map_of (heap s a) k = Some (Str []) then None
      else map_of (heap s a) k)"
proof -
  define qs where "qs = filter (\<lambda>p. fst p \<noteq> ''owner'') (heap s a)"
  have body: "heap (snd (strip_body (Ref a) s)) a =
      fold (\<lambda>k ps. if map_of ps k = Some (Str []) then filter (\<lambda>p. fst p \<noteq> k) ps else ps)
        (map fst qs) qs"
    by (simp add: strip_body_Ref qs_def)
  have qs: "map_of qs k' = (if k' = ''owner'' then None else map_of (heap s a) k')" for k'
    unfolding qs_def by (rule filter_key_map_of)
  have "map_of (heap (snd (strip_body (Ref a) s)) a) k =
      (if k \<in> set (map fst qs) \<and> map_of qs k = Some (Str []) then None else map_of qs k)"
    unfolding body by (rule fold_strip_map_of)
  also have "\<dots> = (if map_of qs k = Some (Str []) then None else map_of qs k)"
    using map_of_Some_key [of qs k "Str []"] by auto
  also have "\<dots> =
      (if k = ''owner'' \<or> map_of (heap s a) k = Some (Str []) then None
       else map_of (heap s a) k)"
    by (simp add: qs)
  finally show ?thesis .
qed

text \<open>
  What the two opening statements do to a body that is neither undefined nor null: they
  end normally; of the body's own keys \<open>owner\<close> and those bound to the empty string are
  gone and the others are bound as before; and nothing else has changed.
\<close>

lemma strip_body_ok:
  assumes "v \<noteq> Undefined" "v \<noteq> Null"
  shows "fst (strip_body v s) = Inr ()"
  using assms strip_body_other [of v s] by (cases v) (simp_all add: strip_body_Ref)

lemma strip_body_map_of:
  assumes "v \<noteq> Undefined" "v \<noteq> Null"
  shows "map_of (own_props (snd (strip_body v s)) v) k =
     (if k = ''owner'' \<or> map_of (own_props s v) k = Some (Str []) then None
      else map_of (own_props s v) k)"
proof (cases v)
  case (Ref a)
  then show ?thesis by (simp add: own_props_def strip_body_Ref_map_of)
next
  case (Str t)
  then show ?thesis
    by (simp add: own_props_def strip_body_Str index_props_owner index_props_value)
qed (use assms in \<open>simp_all add: own_props_def\<close>)

lemma strip_body_frame:
  "posts (snd (strip_body v s)) = posts s \<and> next_addr (snd (strip_body v s)) = next_addr s \<and>
   (Ref b \<noteq> v \<longrightarrow> heap (snd (strip_body v s)) b = heap s b)"
proof (cases "v = Undefined \<or> v = Null \<or> (\<exists>a. v = Ref a)")
  case True
  then show ?thesis by (auto simp: strip_body_nullish strip_body_Ref split: if_splits)
next
  case False
  then show ?thesis using strip_body_other [of v s] by simp
qed

text \<open>What an update with plain keys leaves in a stored post.\<close>

lemma set_prop_map_of:
  "map_of (set_prop k v d) k' = (if k' = k then Some v else map_of d k')"
  by (induction d) auto

lemma write_fold_map_of:
  "map_of (fold (\<lambda>k d'. case map_of upd k of Some v \<Rightarrow> set_prop k v d' | None \<Rightarrow> d') ks d) k =
     (if k \<in> set ks \<and> map_of upd k \<noteq> None then map_of upd k else map_of d k)"
  by (induction ks arbitrary: d) (auto simp: set_prop_map_of split: option.splits)

lemma write_fields_map_of:
  "map_of (write_fields upd d) k =
     (case map_of upd k of Some v \<Rightarrow> Some v | None \<Rightarrow> map_of d k)"
  using map_of_Some_key [of upd k]
  by (simp only: write_fields_def write_fold_map_of split: option.splits) auto

lemma assign_plain_fold:
  assumes "\<forall>k\<in>set ks. \<not> is_operator k"
  shows "fold (\<lambda>k d'. case map_of upd k of Some v \<Rightarrow> apply_key s k v d' | None \<Rightarrow> d') ks d =
         fold (\<lambda>k d'. case map_of upd k of Some v \<Rightarrow> set_prop k v d' | None \<Rightarrow> d') ks d"
  using assms by (induction ks arbitrary: d) (auto simp: apply_key_def split: option.splits)

lemma assign_plain:
  assumes "\<forall>k\<in>set (map fst upd). \<not> is_operator k"
  shows "assign s d upd = write_fields upd d" and "\<not> rejected s upd"
  using assms assign_plain_fold [where ks = "map fst upd" and upd = upd and s = s and d = d]
  by (auto simp: assign_def write_fields_def rejected_def list_ex_iff)

lemma update_first_map:
  "find P xs = Some x \<Longrightarrow> f y = f x \<Longrightarrow> map f (update_first P y xs) = map f xs"
  by (induction xs) (auto split: if_splits)

lemma update_first_all2:
  "find P xs = Some x \<Longrightarrow> R x y \<Longrightarrow> (\<And>z. R z z) \<Longrightarrow> list_all2 R xs (update_first P y xs)"
  by (induction xs) (auto split: if_splits simp: list_all2_same)

lemma findByIdAndUpdate_posts:
  "posts (snd (findByIdAndUpdate i v s)) =
     (if rejected s (own_props s v) then posts s
      else case find (has_id i) (posts s) of
             None \<Rightarrow> posts s
           | Some d \<Rightarrow> update_first (has_id i) (assign s d (own_props s v)) (posts s))"
  by (simp add: findByIdAndUpdate_def alloc_def Let_def split: option.splits)

text \<open>
  The route runs its chain in the state the two opening statements leave, and the state
  the route leaves is the state the update leaves: the guards that follow change nothing.
\<close>

lemma patch_post_run:
  assumes "v = body_post req" "v \<noteq> Undefined" "v \<noteq> Null"
  shows "patch_post req s =
     catch
       (andThen (andThen (findByIdAndUpdate (params_id req) v) handle404)
          (\<lambda>post'. andThen (requireOwnership req post') (\<lambda>_. return (Json 200 post'))))
       (snd (strip_body v s))"
proof -
  obtain r s' where run: "strip_body v s = (r, s')"
    by (cases "strip_body v s")
  with strip_body_ok [OF assms(2,3), of s] have "r = Inr ()"
    by simp
  with run assms(1) show ?thesis
    by (simp add: patch_post_def)
qed

lemma patch_post_state:
  assumes "v = body_post req" "v \<noteq> Undefined" "v \<noteq> Null"
  shows "snd (patch_post req s) = snd (findByIdAndUpdate (params_id req) v (snd (strip_body v s)))"
proof -
  have guard: "snd (andThen (requireOwnership req p) (\<lambda>_. return (Json 200 p)) t) = t"
    for p t
    by (simp add: andThen_state return_state requireOwnership_state)
  show ?thesis
    by (simp add: patch_post_run [OF assms] catch_state andThen_state guard handle404_state)
qed

lemma patch_post_nullish:
  assumes "body_post req = Undefined \<or> body_post req = Null"
  shows "patch_post req s = (Uncaught TypeError, s)"
  using assms by (auto simp: patch_post_def strip_body_nullish)

lemma strip_body_keys_plain:
  assumes v: "v \<noteq> Undefined" "v \<noteq> Null"
    and plain: "\<forall>k\<in>set (map fst (own_props s v)). \<not> is_operator k"
  shows "\<forall>k\<in>set (map fst (own_props (snd (strip_body v s)) v)). \<not> is_operator k"
proof
  fix k assume k: "k \<in> set (map fst (own_props (snd (strip_body v s)) v))"
  obtain x where x: "map_of (own_props (snd (strip_body v s)) v) k = Some x"
    using map_of_key_Some [OF k] ..
  have "map_of (own_props (snd (strip_body v s)) v) k =
     (if k = ''owner'' \<or> map_of (own_props s v) k = Some (Str []) then None
      else map_of (own_props s v) k)"
    by (rule strip_body_map_of [OF v])
  with x have "map_of (own_props s v) k = Some x"
    by (simp split: if_splits)
  then have "k \<in> set (map fst (own_props s v))"
    by (rule map_of_Some_key)
  with plain show "\<not> is_operator k" ..
qed

lemma patch_post_posts_plain:
  assumes v: "body_post req \<noteq> Undefined" "body_post req \<noteq> Null"
    and plain: "\<forall>k\<in>set (map fst (own_props s (body_post req))). \<not> is_operator k"
  shows "posts (snd (patch_post req s)) =
      (case find (has_id (params_id req)) (posts s) of
         None \<Rightarrow> posts s
       | Some d \<Rightarrow>
           update_first (has_id (params_id req))
             (write_fields (own_props (snd (strip_body (body_post req) s)) (body_post req)) d)
             (posts s))"
proof -
  define t where "t = snd (strip_body (body_post req) s)"
  define ups where "ups = own_props t (body_post req)"
  have keys: "\<forall>k\<in>set (map fst ups). \<not> is_operator k"
    unfolding ups_def t_def by (rule strip_body_keys_plain [OF v plain])
  have ok: "\<not> rejected t ups"
    by (rule assign_plain(2) [OF keys])
  have wr: "assign t d ups = write_fields ups d" for d
    by (rule assign_plain(1) [OF keys])
  have pt: "posts t = posts s"
    unfolding t_def using strip_body_frame [of "body_post req" s] by simp
  have "snd (patch_post req s) = snd (findByIdAndUpdate (params_id req) (body_post req) t)"
    unfolding t_def by (rule patch_post_state [OF refl v])
  then have "posts (snd (patch_post req s)) =
      (if rejected t ups then posts t
       else case find (has_id (params_id req)) (posts t) of
              None \<Rightarrow> posts t
            | Some d \<Rightarrow> update_first (has_id (params_id req)) (assign t d ups) (posts t))"
    unfolding ups_def by (simp only: findByIdAndUpdate_posts)
  with ok have "posts (snd (patch_post req s)) =
      (case find (has_id (params_id req)) (posts t) of
         None \<Rightarrow> posts t
       | Some d \<Rightarrow> update_first (has_id (params_id req)) (assign t d ups) (posts t))"
    by simp
  then have "posts (snd (patch_post req s)) =
      (case find (has_id (params_id req)) (posts s) of
         None \<Rightarrow> posts s
       | Some d \<Rightarrow> update_first (has_id (params_id req)) (write_fields ups d) (posts s))"
    unfolding pt wr .
  then show ?thesis
    unfolding ups_def t_def .
qed

lemma write_fields_stripped:
  assumes v: "v \<noteq> Undefined" "v \<noteq> Null"
  shows "map_of (write_fields (own_props (snd (strip_body v s)) v) d) k =
     (if k = ''owner'' \<or> map_of (own_props s v) k = Some (Str []) then map_of d k
      else case map_of (own_props s v) k of Some x \<Rightarrow> Some x | None \<Rightarrow> map_of d k)"
  unfolding write_fields_map_of strip_body_map_of [OF v] by simp

lemma patch_post_owner_plain:
  assumes v: "body_post req \<noteq> Undefined" "body_post req \<noteq> Null"
    and plain: "\<forall>k\<in>set (map fst (own_props s (body_post req))). \<not> is_operator k"
  shows "map (\<lambda>d. map_of d ''owner'') (posts (snd (patch_post req s))) =
      map (\<lambda>d. map_of d ''owner'') (posts s)"
proof (cases "find (has_id (params_id req)) (posts s)")
  case None
  then show ?thesis by (simp add: patch_post_posts_plain [OF v plain])
next
  case (Some d)
  have "map (\<lambda>d. map_of d ''owner'')
      (update_first (has_id (params_id req))
         (write_fields (own_props (snd (strip_body (body_post req) s)) (body_post req)) d)
         (posts s)) = map (\<lambda>d. map_of d ''owner'') (posts s)"
    using Some by (rule update_first_map) (simp add: write_fields_stripped [OF v])
  with Some show ?thesis by (simp add: patch_post_posts_plain [OF v plain])
qed

lemma patch_post_empty_plain:
  assumes v: "body_post req \<noteq> Undefined" "body_post req \<noteq> Null"
    and plain: "\<forall>k\<in>set (map fst (own_props s (body_post req))). \<not> is_operator k"
  shows "list_all2 (\<lambda>d d'. \<forall>k. map_of d' k = Some (Str []) \<longrightarrow> map_of d k = Some (Str []))
      (posts s) (posts (snd (patch_post req s)))"
proof (cases "find (has_id (params_id req)) (posts s)")
  case None
  then show ?thesis by (simp add: patch_post_posts_plain [OF v plain] list_all2_same)
next
  case (Some d)
  have "list_all2 (\<lambda>d d'. \<forall>k. map_of d' k = Some (Str []) \<longrightarrow> map_of d k = Some (Str []))
      (posts s)
      (update_first (has_id (params_id req))
         (write_fields (own_props (snd (strip_body (body_post req) s)) (body_post req)) d)
         (posts s))"
    using Some
  proof (rule update_first_all2)
    show "\<forall>k. map_of (write_fields
        (own_props (snd (strip_body (body_post req) s)) (body_post req)) d) k = Some (Str []) \<longrightarrow>
        map_of d k = Some (Str [])"
      by (auto simp: write_fields_stripped [OF v] split: if_splits option.splits)
  qed simp
  with Some show ?thesis by (simp add: patch_post_posts_plain [OF v plain])
qed

text \<open>
  What the opening statements of the route achieve. A request whose body has no
  \<open>post\<close> member, or null there, is thrown out before any update. For every other
  request the two opening statements end normally and remove from \<open>req.body.post\<close>
  its own key \<open>owner\<close> and its own keys bound to the empty string, and nothing else: every other key is bound as before
  and every other object, the value of an operator key among them, is as it was. The
  update then runs on that body. When no key of the body starts with \<open>$\<close>, the
  \<open>owner\<close> of every stored post is what it was, and a field of a stored post is the
  empty string after the request only if it was the empty string before.
\<close>

theorem patch_post_plain_keys:
  "(body_post req = Undefined \<or> body_post req = Null \<longrightarrow>
      patch_post req s = (Uncaught TypeError, s)) \<and>
   (body_post req \<noteq> Undefined \<and> body_post req \<noteq> Null \<longrightarrow>
      fst (strip_body (body_post req) s) = Inr () \<and>
      (\<forall>k. map_of (own_props (snd (strip_body (body_post req) s)) (body_post req)) k =
            (if k = ''owner'' \<or> map_of (own_props s (body_post req)) k = Some (Str [])
             then None else map_of (own_props s (body_post req)) k)) \<and>
      (\<forall>b. Ref b \<noteq> body_post req \<longrightarrow>
            heap (snd (strip_body (body_post req) s)) b = heap s b) \<and>
      patch_post req s =
        catch
          (andThen
             (andThen (findByIdAndUpdate (params_id req) (body_post req)) handle404)
             (\<lambda>post'. andThen (requireOwnership req post') (\<lambda>_. return (Json 200 post'))))
          (snd (strip_body (body_post req) s)) \<and>
      ((\<forall>k\<in>set (map fst (own_props s (body_post req))). \<not> is_operator k) \<longrightarrow>
         map (\<lambda>d. map_of d ''owner'') (posts (snd (patch_post req s))) =
           map (\<lambda>d. map_of d ''owner'') (posts s) \<and>
         list_all2 (\<lambda>d d'. \<forall>k. map_of d' k = Some (Str []) \<longrightarrow> map_of d k = Some (Str []))
           (posts s) (posts (snd (patch_post req s)))))"
proof (intro conjI impI allI)
  assume "body_post req = Undefined \<or> body_post req = Null"
  then show "patch_post req s = (Uncaught TypeError, s)"
    by (rule patch_post_nullish)
next
  assume "body_post req \<noteq> Undefined \<and> body_post req \<noteq> Null"
  then show "fst (strip_body (body_post req) s) = Inr ()"
    by (simp add: strip_body_ok)
next
  fix k
  assume "body_post req \<noteq> Undefined \<and> body_post req \<noteq> Null"
  then show "map_of (own_props (snd (strip_body (body_post req) s)) (body_post req)) k =
            (if k = ''owner'' \<or> map_of (own_props s (body_post req)) k = Some (Str [])
             then None else map_of (own_props s (body_post req)) k)"
    by (simp add: strip_body_map_of)
next
  fix b
  assume "Ref b \<noteq> body_post req"
  then show "heap (snd (strip_body (body_post req) s)) b = heap s b"
    using strip_body_frame [of "body_post req" s b] by simp
next
  assume "body_post req \<noteq> Undefined \<and> body_post req \<noteq> Null"
  then show "patch_post req s =
        catch
          (andThen
             (andThen (findByIdAndUpdate (params_id req) (body_post req)) handle404)
             (\<lambda>post'. andThen (requireOwnership req post') (\<lambda>_. return (Json 200 post'))))
          (snd (strip_body (body_post req) s))"
    by (simp add: patch_post_run)
next
  assume "body_post req \<noteq> Undefined \<and> body_post req \<noteq> Null"
    and "\<forall>k\<in>set (map fst (own_props s (body_post req))). \<not> is_operator k"
  then show "map (\<lambda>d. map_of d ''owner'') (posts (snd (patch_post req s))) =
      map (\<lambda>d. map_of d ''owner'') (posts s)"
    by (simp add: patch_post_owner_plain)
next
  assume "body_post req \<noteq> Undefined \<and> body_post req \<noteq> Null"
    and "\<forall>k\<in>set (map fst (own_props s (body_post req))). \<not> is_operator k"
  then show "list_all2 (\<lambda>d d'. \<forall>k. map_of d' k = Some (Str []) \<longrightarrow> map_of d k = Some (Str []))
      (posts s) (posts (snd (patch_post req s)))"
    by (simp add: patch_post_empty_plain)
qed

theorem patch_post_plain_keys_witness:
  "patch_post without_post s0 = (Uncaught TypeError, s0) \<and>
   map_of (heap s0 3) ''owner'' = Some (Str ''u2'') \<and>
   map_of (heap s0 3) ''text'' = Some (Str []) \<and>
   map_of (heap s0 3) ''title'' = Some (Str ''taken'') \<and>
   map_of (heap (snd (strip_body (Ref 3) s0)) 3) ''owner'' = None \<and>
   map_of (heap (snd (strip_body (Ref 3) s0)) 3) ''text'' = None \<and>
   map_of (heap (snd (strip_body (Ref 3) s0)) 3) ''title'' = Some (Str ''taken'') \<and>
   map (\<lambda>d. map_of d ''owner'') (posts (snd (patch_post as_ann s0))) =
     [Some (ObjectId 301 ''u1'')] \<and>
   posts (snd (patch_post as_ann s0)) =
     [[(''_id'', ObjectId 300 ''p1''), (''owner'', ObjectId 301 ''u1''),
       (''title'', Str ''taken''), (''text'', Str [])]] \<and>
   map_of (hd (posts s0)) ''text'' = Some (Str [])"
proof -
  have u: "body_post without_post = Undefined \<or> body_post without_post = Null"
    by (simp add: without_post_def)
  have b: "body_post as_ann = Ref 3"
    by (simp add: as_ann_def)
  have before: "own_props s0 (Ref 3) = body \<and> heap s0 3 = body \<and> posts s0 = [first_post]"
    by (simp add: own_props_def s0_def)
  have plain: "\<forall>k\<in>set (map fst (own_props s0 (body_post as_ann))). \<not> is_operator k"
    by (simp add: b before body_def is_operator_def)
  have run: "posts (snd (patch_post as_ann s0)) =
     [[(''_id'', ObjectId 300 ''p1''), (''owner'', ObjectId 301 ''u1''),
       (''title'', Str ''taken''), (''text'', Str [])]]"
    using b plain
    by (simp add: patch_post_def strip_body_def delete_empty_def delete_prop_def Object_keys_def
        own_props_def catch_def andThen_def findByIdAndUpdate_def alloc_def assign_def
        apply_key_def rejected_def is_operator_def has_id_def
        handle404_def requireOwnership_def get_prop_def equals_def return_def throw_def
        as_ann_def s0_def first_post_def body_def ann_def Let_def)
  show ?thesis
    using patch_post_plain_keys [of without_post s0] patch_post_plain_keys [of as_ann s0]
      u b plain run before
    by (simp add: body_def first_post_def own_props_def)
qed

text \<open>
  C9: the opening statements do not keep every update from the owner and from the empty
  string. The first user sends an update operator as the \<open>post\<close> member. The body
  has one key, \<open>$set\<close>, which is not \<open>owner\<close> and is not bound to the empty
  string: the opening statements remove nothing and leave the operand as it was, and the
  update writes the operand's owner and its empty title to the stored post. The guard,
  run on the post as updated, then answers with the OwnershipError.
\<close>

theorem patch_post_operator_key:
  "posts s1 =
     [[(''_id'', ObjectId 300 ''p1''), (''owner'', ObjectId 301 ''u1''),
       (''title'', Str ''first''), (''text'', Str [])]] \<and>
   heap s1 5 = [(''$set'', Ref 6)] \<and>
   heap s1 6 = [(''owner'', Str ''u2''), (''title'', Str [])] \<and>
   heap (snd (strip_body (body_post with_operator) s1)) 5 = [(''$set'', Ref 6)] \<and>
   heap (snd (strip_body (body_post with_operator) s1)) 6 =
     [(''owner'', Str ''u2''), (''title'', Str [])] \<and>
   posts (snd (patch_post with_operator s1)) =
     [[(''_id'', ObjectId 300 ''p1''), (''owner'', Str ''u2''),
       (''title'', Str []), (''text'', Str [])]] \<and>
   fst (patch_post with_operator s1) = Handle (Raised new_OwnershipError)"
  by (simp add: patch_post_def strip_body_def delete_empty_def delete_prop_def Object_keys_def
      own_props_def catch_def andThen_def findByIdAndUpdate_def alloc_def assign_def
      apply_key_def write_fields_def rejected_def is_operator_def has_id_def
      handle404_def requireOwnership_def get_prop_def equals_def return_def throw_def
      with_operator_def s1_def s0_def bob_def first_post_def body_def ann_def
      operator_body_def operand_def Let_def)

section \<open>Guard and mutation in the two routes\<close>

text \<open>A chain that ends in an exception: where the exception came from.\<close>

lemma andThen_Inl:
  assumes "andThen m f s = (Inl e, s')"
  obtains "m s = (Inl e, s')" | x s1 where "m s = (Inr x, s1)" and "f x s1 = (Inl e, s')"
  using assms by (auto simp: andThen_def split: prod.splits sum.splits)

lemma findById_posts: "posts (snd (findById i s)) = posts s"
  by (simp add: findById_def alloc_def split: option.splits)

lemma requireOwnership_snd: "requireOwnership req p s = (r, s') \<Longrightarrow> s' = s"
  using requireOwnership_state [of req p s] by simp

lemma handle404_snd: "handle404 v s = (r, s') \<Longrightarrow> s' = s"
  using handle404_state [of v s] by simp

lemma remove_Inl: "remove p s = (Inl e, s') \<Longrightarrow> s' = s"
  by (auto simp: remove_def andThen_def get_prop_def return_def
      split: jsval.splits option.splits)

lemma delete_post_chain_Inl:
  assumes "andThen (andThen (findById i) handle404)
             (\<lambda>post. andThen (requireOwnership req post) (\<lambda>_. remove post)) s = (Inl e, s')"
  shows "posts s' = posts s"
  using assms
proof (cases rule: andThen_Inl)
  case 1
  then show ?thesis
  proof (cases rule: andThen_Inl)
    case 1
    then show ?thesis using findById_posts [of i s] by simp
  next
    case (2 x s1)
    then show ?thesis using findById_posts [of i s] handle404_snd by fastforce
  qed
next
  case (2 x s1)
  from 2(1) have s1: "posts s1 = posts s"
    using findById_posts [of i s] handle404_state
    by (auto simp: andThen_def split: prod.splits sum.splits) (metis snd_conv)+
  from 2(2) have "s' = s1"
  proof (cases rule: andThen_Inl)
    case 1
    then show ?thesis by (rule requireOwnership_snd)
  next
    case (2 y s2)
    then show ?thesis using requireOwnership_snd remove_Inl by blast
  qed
  with s1 show ?thesis by simp
qed

text \<open>
  The DELETE route removes the post only after both guards have returned: whenever its
  answer is not the status 204, the stored posts are what they were, and the answer is
  the thrown error, handed to the error handler as it is.
\<close>

lemma delete_post_guarded:
  assumes "fst (delete_post req s) \<noteq> SendStatus 204"
  shows "posts (snd (delete_post req s)) = posts s \<and> (\<exists>e. fst (delete_post req s) = Handle e)"
proof -
  define M where "M = andThen (andThen (findById (params_id req)) handle404)
             (\<lambda>post. andThen (requireOwnership req post) (\<lambda>_. remove post))"
  have "delete_post req = catch (andThen M (\<lambda>_. return (SendStatus 204)))"
    by (simp add: delete_post_def M_def)
  then have run: "delete_post req s =
      (case M s of (Inl e, s') \<Rightarrow> (Handle e, s') | (Inr _, s') \<Rightarrow> (SendStatus 204, s'))"
    by (simp add: catch_def andThen_def return_def split: prod.splits sum.splits)
  obtain r s' where M: "M s = (r, s')"
    by (cases "M s")
  with assms run obtain e where r: "r = Inl e"
    by (cases r) auto
  have "posts s' = posts s"
    using M r delete_post_chain_Inl [of "params_id req" req s e s'] by (simp add: M_def)
  then show ?thesis
    using run M r by simp
qed

text \<open>
  C2: the PATCH route does not wait for the guard. Its one call to the data layer loads
  the post and updates it, and \<open>requireOwnership\<close> runs on the post as updated. In the
  scenario the second user patches the post of the first: the answer is the
  OwnershipError, handed to the error handler, and the stored post has the new title all
  the same. The DELETE route on the same request gives the same error and leaves the
  stored post as it was.
\<close>

theorem patch_post_updates_before_guard:
  "fst (patch_post as_bob s0) = Handle (Raised new_OwnershipError) \<and>
   posts s0 =
     [[(''_id'', ObjectId 300 ''p1''), (''owner'', ObjectId 301 ''u1''),
       (''title'', Str ''first''), (''text'', Str [])]] \<and>
   posts (snd (patch_post as_bob s0)) =
     [[(''_id'', ObjectId 300 ''p1''), (''owner'', ObjectId 301 ''u1''),
       (''title'', Str ''taken''), (''text'', Str [])]] \<and>
   fst (delete_post as_bob s0) = Handle (Raised new_OwnershipError) \<and>
   posts (snd (delete_post as_bob s0)) = posts s0"
  by (simp add: patch_post_def strip_body_def delete_empty_def delete_prop_def Object_keys_def
      own_props_def catch_def andThen_def findByIdAndUpdate_def findById_def alloc_def
      assign_def apply_key_def rejected_def is_operator_def has_id_def
      handle404_def requireOwnership_def get_prop_def equals_def return_def throw_def
      delete_post_def remove_def
      as_bob_def s0_def bob_def first_post_def body_def ann_def Let_def)

end
